theory Spec2Isabelle
  imports Main "HOL-Library.Word"
begin

section \<open>JavaScript values\<close>

text \<open>
  The values that flow through \<^verbatim>\<open>src/app/src/util/http-utils.js\<close>: request bodies,
  endpoints, flags, tokens, action types, response bodies and caught errors are
  arbitrary JavaScript values. The values kept here are the primitives and the plain
  data objects. An object \<open>JObj kvs\<close> has the prototype \<^verbatim>\<open>Object.prototype\<close> and the own
  data properties \<open>kvs\<close>, whose values are values of this type again, so none of them is
  callable (a lookup takes the first entry of a key). A number \<open>JNum n\<close> is the integer
  \<open>sint n\<close>, from \<open>- 2 ^ 53\<close> up to \<open>2 ^ 53 - 1\<close>: the integers that a double holds one
  by one and prints digit by digit.
\<close>

datatype jsval =
    JUndefined
  | JNull
  | JBool bool
  | JNum "54 word"
  | JNaN
  | JStr string
  | JObj "(string \<times> jsval) list"

text \<open>ToBoolean: what \<^verbatim>\<open>||\<close>, \<^verbatim>\<open>&&\<close> and \<^verbatim>\<open>?:\<close> test.\<close>

fun truthy :: "jsval \<Rightarrow> bool" where
  "truthy JUndefined = False"
| "truthy JNull = False"
| "truthy (JBool b) = b"
| "truthy (JNum n) = (n \<noteq> 0)"
| "truthy JNaN = False"
| "truthy (JStr s) = (s \<noteq> [])"
| "truthy (JObj kvs) = True"

text \<open>\<^verbatim>\<open>a || b\<close>\<close>

definition js_or :: "jsval \<Rightarrow> jsval \<Rightarrow> jsval" where
  "js_or a b = (if truthy a then a else b)"

text \<open>The result of a synchronous call: it returns a value or throws one.\<close>

datatype 'a completion = Returned 'a | Threw jsval

text \<open>A settled promise, as \<^verbatim>\<open>await\<close> and the caller's \<^verbatim>\<open>.then/.catch\<close> see it.\<close>

datatype 'a promise = Resolved 'a | Rejected jsval

text \<open>
  The error object the engine throws on a failed conversion or property read, kept by
  its name (its message differs between engines). It has no \<^verbatim>\<open>response\<close>.
\<close>

definition TypeError :: jsval where
  "TypeError = JObj [(''name'', JStr ''TypeError'')]"

text \<open>
  Property read \<^verbatim>\<open>v.k\<close> for a property name \<open>k\<close> that no built-in prototype defines
  (\<^verbatim>\<open>response\<close>, \<^verbatim>\<open>data\<close>): it throws on \<^verbatim>\<open>undefined\<close> and \<^verbatim>\<open>null\<close>, is
  \<^verbatim>\<open>undefined\<close> on the other primitives and on an object without the property.
\<close>

fun get_prop :: "jsval \<Rightarrow> string \<Rightarrow> jsval completion" where
  "get_prop JUndefined k = Threw TypeError"
| "get_prop JNull k = Threw TypeError"
| "get_prop (JObj kvs) k = Returned (case map_of kvs k of Some v \<Rightarrow> v | None \<Rightarrow> JUndefined)"
| "get_prop v k = Returned JUndefined"

text \<open>Decimal digits of a natural number.\<close>

fun digits :: "nat \<Rightarrow> string" where
  "digits n =
     (if n < 10 then [char_of (48 + n)]
      else digits (n div 10) @ [char_of (48 + n mod 10)])"

declare digits.simps [simp del]

text \<open>
  ToString, as a template literal \<^verbatim>\<open>`${v}`\<close> applies it. On an object it looks for the
  methods \<^verbatim>\<open>toString\<close> and \<^verbatim>\<open>valueOf\<close>. An own \<^verbatim>\<open>toString\<close> property hides the
  inherited method and is not callable, and \<^verbatim>\<open>valueOf\<close>, own or inherited, yields no
  primitive either, so the conversion throws; without an own \<^verbatim>\<open>toString\<close> the inherited
  method answers \<^verbatim>\<open>[object Object]\<close>.
\<close>

fun toString :: "jsval \<Rightarrow> string completion" where
  "toString JUndefined = Returned ''undefined''"
| "toString JNull = Returned ''null''"
| "toString (JBool b) = Returned (if b then ''true'' else ''false'')"
| "toString (JNum n) =
     Returned (if sint n < 0 then ''-'' @ digits (nat (- sint n)) else digits (nat (sint n)))"
| "toString JNaN = Returned ''NaN''"
| "toString (JStr s) = Returned s"
| "toString (JObj kvs) =
     (case map_of kvs ''toString'' of
        Some m \<Rightarrow> Threw TypeError
      | None \<Rightarrow> Returned ''[object Object]'')"

section \<open>Constants, events and collaborators\<close>

text \<open>
  \<^verbatim>\<open>redux-constants\<close> is imported but is not among the sources; its seven constants are
  taken as distinct tags.
\<close>

datatype status = PENDING | SUCCESS | ERROR

datatype verb = GET | POST | PUT | DELETE

text \<open>The nested object \<^verbatim>\<open>{ status: ... }\<close> of an action's \<^verbatim>\<open>meta\<close> property.\<close>

datatype meta = Meta (meta_status: status)

text \<open>
  What is handed to \<^verbatim>\<open>dispatch\<close>: an object with a \<^verbatim>\<open>type\<close> and the optional
  properties \<^verbatim>\<open>payload\<close>, \<^verbatim>\<open>status\<close> and \<^verbatim>\<open>meta\<close>; \<open>None\<close> is a property the object
  literal does not have.
\<close>

record action =
  type :: jsval
  payload :: "jsval option"
  status :: "status option"
  meta :: "meta option"

text \<open>The options object the wrappers build; a property they leave out reads \<^verbatim>\<open>undefined\<close>.\<close>

record opts =
  endpoint :: jsval
  data :: jsval
  requiresAuth :: jsval

text \<open>What the transport resolves with: an object exposing \<^verbatim>\<open>.data\<close>.\<close>

datatype response = Response (response_data: jsval)

text \<open>
  The collaborators of the module. \<open>API_URL\<close> is the module constant, \<^verbatim>\<open>getApiUrl()\<close> at
  load time. \<open>getCookie\<close> is the cookie store at request time. \<open>axios\<close> is the transport:
  \<open>axios env v args\<close> is how the promise of \<^verbatim>\<open>axios[v](...args)\<close> settles (a call that
  throws lands in the same \<^verbatim>\<open>catch\<close> as a rejection). \<open>dispatch\<close> is the caller's sink:
  \<open>None\<close> when it returns (its result is ignored), \<open>Some e\<close> when it throws \<open>e\<close>.
\<close>

record env =
  API_URL :: string
  getEnvironment :: string
  getCookie :: "string \<Rightarrow> jsval"
  axios :: "verb \<Rightarrow> jsval list \<Rightarrow> response promise"
  dispatch :: "action \<Rightarrow> jsval option"

text \<open>The observable effects of a call, in the order they happen.\<close>

datatype effect =
    Dispatched action
  | Requested verb "jsval list"
  | ConsoleError jsval

section \<open>The error reporter\<close>

text \<open>\<^verbatim>\<open>error && error.response ? error.response.data : error\<close>\<close>

definition errorMessage :: "jsval \<Rightarrow> jsval completion" where
  "errorMessage error =
     (if truthy error then
        (case get_prop error ''response'' of
           Threw x \<Rightarrow> Threw x
         | Returned r \<Rightarrow> if truthy r then get_prop r ''data'' else Returned error)
      else Returned error)"

text \<open>
  \<^verbatim>\<open>handleError(dispatch, error, type)\<close>: a synchronous function that returns the promise
  \<^verbatim>\<open>Promise.reject(errorMessage)\<close>, unless something it calls throws. In development it
  first builds the line \<^verbatim>\<open>`Error type: ${type}.`\<close>; when that conversion throws, nothing
  has been logged or dispatched yet.
\<close>

definition handleError :: "env \<Rightarrow> jsval \<Rightarrow> jsval \<Rightarrow> jsval promise completion \<times> effect list" where
  "handleError env error type' =
     (case (if getEnvironment env = ''development''
            then (case toString type' of
                    Threw x \<Rightarrow> Threw x
                  | Returned s \<Rightarrow>
                      Returned [ConsoleError (JStr (''Error type: '' @ s @ ''.'')),
                                ConsoleError error])
            else Returned []) of
        Threw x \<Rightarrow> (Threw x, [])
      | Returned logged \<Rightarrow>
          (case errorMessage error of
             Threw x \<Rightarrow> (Threw x, logged)
           | Returned msg \<Rightarrow>
               (let act = \<lparr>type = type', payload = Some msg, status = Some ERROR,
                           meta = None\<rparr>
                in case dispatch env act of
                     Some x \<Rightarrow> (Threw x, logged @ [Dispatched act])
                   | None \<Rightarrow> (Returned (Rejected msg), logged @ [Dispatched act]))))"

section \<open>The request dispatcher\<close>

text \<open>
  The argument array \<^verbatim>\<open>reqArgs\<close> that is spread into the transport call. Its first
  element is a template literal, so building the array throws when the endpoint cannot
  be converted to a string.
\<close>

definition reqArgs :: "env \<Rightarrow> verb \<Rightarrow> opts \<Rightarrow> jsval list completion" where
  "reqArgs env requestType opts =
     (case toString (js_or (endpoint opts) (JStr '''')) of
        Threw x \<Rightarrow> Threw x
      | Returned s \<Rightarrow>
          Returned
            ([JStr (API_URL env @ ''/'' @ s)]
             @ (if requestType = POST \<or> requestType = PUT
                then [js_or (data opts) (JObj [])] else [])
             @ [if truthy (requiresAuth opts)
                then JObj [(''headers'', JObj [(''Authorization'', getCookie env ''token'')])]
                else JObj []]))"

text \<open>
  \<^verbatim>\<open>httpRequest(dispatch, requestType, actionType = '', opts)\<close>. The function is private
  to the module and each of its four callers passes a verb constant and an options
  object, so only the default of \<^verbatim>\<open>actionType\<close> can apply. The whole body is one
  \<^verbatim>\<open>try\<close>: whatever is thrown or rejected inside it becomes the rejection.
\<close>

definition httpRequest :: "env \<Rightarrow> verb \<Rightarrow> jsval \<Rightarrow> opts \<Rightarrow> jsval promise \<times> effect list" where
  "httpRequest env requestType actionType' opts =
     (let actionType = (if actionType' = JUndefined then JStr '''' else actionType');
          pending = \<lparr>type = actionType, payload = None, status = None,
                      meta = Some (Meta PENDING)\<rparr>
      in case dispatch env pending of
           Some err \<Rightarrow> (Rejected err, [Dispatched pending])
         | None \<Rightarrow>
             (case reqArgs env requestType opts of
                Threw err \<Rightarrow> (Rejected err, [Dispatched pending])
              | Returned args \<Rightarrow>
                  (case axios env requestType args of
                     Rejected err \<Rightarrow>
                       (Rejected err, [Dispatched pending, Requested requestType args])
                   | Resolved response \<Rightarrow>
                       (let success = \<lparr>type = actionType,
                                         payload = Some (response_data response),
                                         status = None, meta = Some (Meta SUCCESS)\<rparr>
                        in case dispatch env success of
                             Some err \<Rightarrow>
                               (Rejected err,
                                [Dispatched pending, Requested requestType args,
                                 Dispatched success])
                           | None \<Rightarrow>
                               (Resolved (response_data response),
                                [Dispatched pending, Requested requestType args,
                                 Dispatched success])))))"

section \<open>The verb wrappers\<close>

text \<open>
  \<^verbatim>\<open>return handleError(...)\<close> inside the \<^verbatim>\<open>catch\<close> of an async function: the wrapper's
  promise takes the state of the returned promise, or rejects with what was thrown.
\<close>

definition settle :: "'a promise completion \<Rightarrow> 'a promise" where
  "settle c = (case c of Returned p \<Rightarrow> p | Threw x \<Rightarrow> Rejected x)"

definition post :: "env \<Rightarrow> jsval \<Rightarrow> jsval \<Rightarrow> jsval \<Rightarrow> jsval \<Rightarrow> jsval promise \<times> effect list" where
  "post env type' endpoint' data' requiresAuth' =
     (case httpRequest env POST type'
             \<lparr>endpoint = endpoint', data = data', requiresAuth = requiresAuth'\<rparr> of
        (Resolved results, tr) \<Rightarrow> (Resolved results, tr)
      | (Rejected err, tr) \<Rightarrow>
          (case handleError env err type' of (r, tr') \<Rightarrow> (settle r, tr @ tr')))"

definition put :: "env \<Rightarrow> jsval \<Rightarrow> jsval \<Rightarrow> jsval \<Rightarrow> jsval \<Rightarrow> jsval promise \<times> effect list" where
  "put env type' endpoint' data' requiresAuth' =
     (case httpRequest env PUT type'
             \<lparr>endpoint = endpoint', data = data', requiresAuth = requiresAuth'\<rparr> of
        (Resolved results, tr) \<Rightarrow> (Resolved JUndefined, tr)
      | (Rejected err, tr) \<Rightarrow>
          (case handleError env err type' of (r, tr') \<Rightarrow> (settle r, tr @ tr')))"

definition get :: "env \<Rightarrow> jsval \<Rightarrow> jsval \<Rightarrow> jsval \<Rightarrow> jsval promise \<times> effect list" where
  "get env type' endpoint' requiresAuth' =
     (case httpRequest env GET type'
             \<lparr>endpoint = endpoint', data = JUndefined, requiresAuth = requiresAuth'\<rparr> of
        (Resolved results, tr) \<Rightarrow> (Resolved JUndefined, tr)
      | (Rejected err, tr) \<Rightarrow>
          (case handleError env err type' of (r, tr') \<Rightarrow> (settle r, tr @ tr')))"

definition del :: "env \<Rightarrow> jsval \<Rightarrow> jsval \<Rightarrow> jsval \<Rightarrow> jsval promise \<times> effect list" where
  "del env type' endpoint' requiresAuth' =
     (case httpRequest env DELETE type'
             \<lparr>endpoint = endpoint', data = JUndefined, requiresAuth = requiresAuth'\<rparr> of
        (Resolved results, tr) \<Rightarrow> (Resolved JUndefined, tr)
      | (Rejected err, tr) \<Rightarrow>
          (case handleError env err type' of (r, tr') \<Rightarrow> (settle r, tr @ tr')))"

section \<open>Naming the parts of a run\<close>

text \<open>The options object that the wrapper of verb \<open>v\<close> builds from its arguments.\<close>

definition request_opts :: "verb \<Rightarrow> jsval \<Rightarrow> jsval \<Rightarrow> jsval \<Rightarrow> opts" where
  "request_opts v endpoint' data' requiresAuth' =
     \<lparr>endpoint = endpoint',
      data = (if v = POST \<or> v = PUT then data' else JUndefined),
      requiresAuth = requiresAuth'\<rparr>"

text \<open>The wrapper of a verb; \<open>get\<close> and \<open>del\<close> take no body.\<close>

definition invoke :: "verb \<Rightarrow> env \<Rightarrow> jsval \<Rightarrow> jsval \<Rightarrow> jsval \<Rightarrow> jsval \<Rightarrow> jsval promise \<times> effect list" where
  "invoke v env type' endpoint' data' requiresAuth' =
     (case v of
        GET \<Rightarrow> get env type' endpoint' requiresAuth'
      | POST \<Rightarrow> post env type' endpoint' data' requiresAuth'
      | PUT \<Rightarrow> put env type' endpoint' data' requiresAuth'
      | DELETE \<Rightarrow> del env type' endpoint' requiresAuth')"

text \<open>The events handed to the sink, in order.\<close>

fun dispatched :: "effect list \<Rightarrow> action list" where
  "dispatched [] = []"
| "dispatched (Dispatched a # tr) = a # dispatched tr"
| "dispatched (x # tr) = dispatched tr"

text \<open>The lifecycle status an event carries, nested under \<^verbatim>\<open>meta\<close> or at the top level.\<close>

definition lifecycle :: "action \<Rightarrow> status option" where
  "lifecycle a = (case meta a of Some m \<Rightarrow> Some (meta_status m) | None \<Rightarrow> status a)"

text \<open>The three object literals of the source that are passed to \<^verbatim>\<open>dispatch\<close>.\<close>

definition pending_event :: "jsval \<Rightarrow> action" where
  "pending_event t =
     \<lparr>type = (if t = JUndefined then JStr '''' else t), payload = None, status = None,
      meta = Some (Meta PENDING)\<rparr>"

definition success_event :: "jsval \<Rightarrow> jsval \<Rightarrow> action" where
  "success_event t body =
     \<lparr>type = (if t = JUndefined then JStr '''' else t), payload = Some body, status = None,
      meta = Some (Meta SUCCESS)\<rparr>"

definition error_event :: "jsval \<Rightarrow> jsval \<Rightarrow> action" where
  "error_event t msg = \<lparr>type = t, payload = Some msg, status = Some ERROR, meta = None\<rparr>"

text \<open>
  The reported payload described on the data alone, without evaluation order or
  exceptions: the \<^verbatim>\<open>data\<close> of the error's \<^verbatim>\<open>response\<close> when the error is an object
  whose \<^verbatim>\<open>response\<close> is truthy (\<^verbatim>\<open>undefined\<close> when that response has no \<^verbatim>\<open>data\<close>),
  the error itself in every other case.
\<close>

definition normalized :: "jsval \<Rightarrow> jsval" where
  "normalized error =
     (case error of
        JObj kvs \<Rightarrow>
          (case map_of kvs ''response'' of
             Some r \<Rightarrow>
               if truthy r
               then (case r of
                       JObj rkvs \<Rightarrow>
                         (case map_of rkvs ''data'' of Some b \<Rightarrow> b | None \<Rightarrow> JUndefined)
                     | _ \<Rightarrow> JUndefined)
               else error
           | None \<Rightarrow> error)
      | _ \<Rightarrow> error)"

section \<open>Example environments\<close>

text \<open>A transport that answers every request with the body \<^verbatim>\<open>{id: 1, name: 'A'}\<close>.\<close>

definition mock_env :: env where
  "mock_env =
     \<lparr>API_URL = ''http://localhost:3000/api'',
      getEnvironment = ''development'',
      getCookie = (\<lambda>name. if name = ''token'' then JStr ''jwt-1'' else JUndefined),
      axios = (\<lambda>v args. Resolved (Response (JObj [(''id'', JNum 1), (''name'', JStr ''A'')]))),
      dispatch = (\<lambda>a. None)\<rparr>"

text \<open>A transport that rejects with \<^verbatim>\<open>{response: {data: 'Not found'}}\<close>.\<close>

definition not_found_env :: env where
  "not_found_env =
     mock_env\<lparr>axios :=
       (\<lambda>v args. Rejected (JObj [(''response'', JObj [(''data'', JStr ''Not found'')])]))\<rparr>"

text \<open>A sink that throws when it is handed an event of the given status.\<close>

definition throwing_sink :: "status \<Rightarrow> env" where
  "throwing_sink st =
     mock_env\<lparr>dispatch :=
       (\<lambda>a. if lifecycle a = Some st then Some (JStr ''sink failed'') else None)\<rparr>"

lemmas run_defs =
  invoke_def get_def post_def put_def del_def httpRequest_def handleError_def
  errorMessage_def reqArgs_def request_opts_def js_or_def settle_def lifecycle_def
  mock_env_def not_found_env_def throwing_sink_def Let_def

section \<open>How a run unfolds\<close>

lemma get_prop_truthy: "truthy r \<Longrightarrow> \<exists>m. get_prop r k = Returned m"
  by (cases r) auto

text \<open>The guard of \<^verbatim>\<open>errorMessage\<close> keeps every property read off \<^verbatim>\<open>undefined\<close> and \<^verbatim>\<open>null\<close>.\<close>

lemma errorMessage_returns: "\<exists>m. errorMessage e = Returned m"
proof (cases "truthy e")
  case False
  then show ?thesis by (simp add: errorMessage_def)
next
  case True
  then obtain r where r: "get_prop e ''response'' = Returned r"
    using get_prop_truthy by blast
  show ?thesis
  proof (cases "truthy r")
    case True
    then obtain m where "get_prop r ''data'' = Returned m"
      using get_prop_truthy by blast
    with r \<open>truthy e\<close> True show ?thesis by (simp add: errorMessage_def)
  next
    case False
    with r \<open>truthy e\<close> show ?thesis by (simp add: errorMessage_def)
  qed
qed

lemma errorMessage_normalized: "errorMessage error = Returned (normalized error)"
proof (cases error)
  case (JObj kvs)
  show ?thesis
  proof (cases "map_of kvs ''response''")
    case None
    with JObj show ?thesis by (simp add: errorMessage_def normalized_def)
  next
    case (Some r)
    with JObj show ?thesis
      by (cases r) (simp_all add: errorMessage_def normalized_def)
  qed
qed (simp_all add: errorMessage_def normalized_def)

lemma invoke_unfold:
  "invoke v env t e d ra =
     (case httpRequest env v t (request_opts v e d ra) of
        (Resolved results, tr) \<Rightarrow> (Resolved (if v = POST then results else JUndefined), tr)
      | (Rejected err, tr) \<Rightarrow>
          (case handleError env err t of (r, tr') \<Rightarrow> (settle r, tr @ tr')))"
  by (cases v)
     (simp_all add: invoke_def get_def post_def put_def del_def request_opts_def
        split: prod.splits promise.splits)

lemma dispatched_append: "dispatched (xs @ ys) = dispatched xs @ dispatched ys"
  by (induction xs rule: dispatched.induct) simp_all

lemma dispatched_mem: "Dispatched a \<in> set tr \<longleftrightarrow> a \<in> set (dispatched tr)"
  by (induction tr rule: dispatched.induct) auto

lemma lifecycle_events [simp]:
  "lifecycle (pending_event t) = Some PENDING"
  "lifecycle (success_event t b) = Some SUCCESS"
  "lifecycle (error_event t m) = Some ERROR"
  by (simp_all add: lifecycle_def pending_event_def success_event_def error_event_def)

text \<open>The five ways through \<^verbatim>\<open>httpRequest\<close>.\<close>

lemma httpRequest_cases
  [consumes 0, case_names sink_threw url_threw rejected success_threw resolved]:
  obtains
    x where "dispatch env (pending_event t) = Some x"
      and "httpRequest env v t os = (Rejected x, [Dispatched (pending_event t)])"
  | x where "dispatch env (pending_event t) = None"
      and "reqArgs env v os = Threw x"
      and "httpRequest env v t os = (Rejected x, [Dispatched (pending_event t)])"
  | args x where "dispatch env (pending_event t) = None"
      and "reqArgs env v os = Returned args"
      and "axios env v args = Rejected x"
      and "httpRequest env v t os =
             (Rejected x, [Dispatched (pending_event t), Requested v args])"
  | args r x where "dispatch env (pending_event t) = None"
      and "reqArgs env v os = Returned args"
      and "axios env v args = Resolved r"
      and "dispatch env (success_event t (response_data r)) = Some x"
      and "httpRequest env v t os =
             (Rejected x, [Dispatched (pending_event t), Requested v args,
                           Dispatched (success_event t (response_data r))])"
  | args r where "dispatch env (pending_event t) = None"
      and "reqArgs env v os = Returned args"
      and "axios env v args = Resolved r"
      and "dispatch env (success_event t (response_data r)) = None"
      and "httpRequest env v t os =
             (Resolved (response_data r),
              [Dispatched (pending_event t), Requested v args,
               Dispatched (success_event t (response_data r))])"
proof (cases "dispatch env (pending_event t)")
  case (Some x)
  then have "httpRequest env v t os = (Rejected x, [Dispatched (pending_event t)])"
    by (simp add: httpRequest_def pending_event_def Let_def)
  with Some show ?thesis using that(1) by blast
next
  case None
  show ?thesis
  proof (cases "reqArgs env v os")
    case (Threw x)
    with None have "httpRequest env v t os = (Rejected x, [Dispatched (pending_event t)])"
      by (simp add: httpRequest_def pending_event_def Let_def)
    with None Threw show ?thesis using that(2) by blast
  next
    case (Returned args)
    show ?thesis
    proof (cases "axios env v args")
      case (Rejected x)
      with None Returned have "httpRequest env v t os =
          (Rejected x, [Dispatched (pending_event t), Requested v args])"
        by (simp add: httpRequest_def pending_event_def Let_def)
      with None Returned Rejected show ?thesis using that(3) by blast
    next
      case (Resolved r)
      show ?thesis
      proof (cases "dispatch env (success_event t (response_data r))")
        case (Some x)
        with None Returned Resolved have "httpRequest env v t os =
            (Rejected x, [Dispatched (pending_event t), Requested v args,
                          Dispatched (success_event t (response_data r))])"
          by (simp add: httpRequest_def pending_event_def success_event_def Let_def)
        with None Returned Resolved Some show ?thesis using that(4) by blast
      next
        case inner: None
        with None Returned Resolved have "httpRequest env v t os =
            (Resolved (response_data r),
             [Dispatched (pending_event t), Requested v args,
              Dispatched (success_event t (response_data r))])"
          by (simp add: httpRequest_def pending_event_def success_event_def Let_def)
        with None Returned Resolved inner show ?thesis using that(5) by blast
      qed
    qed
  qed
qed

text \<open>The three ways through \<^verbatim>\<open>handleError\<close>.\<close>

lemma handleError_cases [consumes 0, case_names log_threw sink_threw returned]:
  obtains
    x where "getEnvironment env = ''development''"
      and "toString t = Threw x"
      and "handleError env err t = (Threw x, [])"
  | msg x where "getEnvironment env = ''development'' \<longrightarrow> (\<exists>s. toString t = Returned s)"
      and "errorMessage err = Returned msg"
      and "dispatch env (error_event t msg) = Some x"
      and "fst (handleError env err t) = Threw x"
      and "dispatched (snd (handleError env err t)) = [error_event t msg]"
  | msg where "getEnvironment env = ''development'' \<longrightarrow> (\<exists>s. toString t = Returned s)"
      and "errorMessage err = Returned msg"
      and "dispatch env (error_event t msg) = None"
      and "fst (handleError env err t) = Returned (Rejected msg)"
      and "dispatched (snd (handleError env err t)) = [error_event t msg]"
proof -
  obtain msg where msg: "errorMessage err = Returned msg"
    using errorMessage_returns by blast
  show ?thesis
  proof (cases "getEnvironment env = ''development'' \<and> (\<exists>x. toString t = Threw x)")
    case True
    then obtain x where x: "toString t = Threw x" by blast
    with True have "handleError env err t = (Threw x, [])"
      by (simp add: handleError_def)
    with True x show ?thesis using that(1) by blast
  next
    case False
    then have ok: "getEnvironment env = ''development'' \<longrightarrow> (\<exists>s. toString t = Returned s)"
      by (cases "toString t") auto
    show ?thesis
    proof (cases "dispatch env (error_event t msg)")
      case (Some x)
      with msg ok have "fst (handleError env err t) = Threw x"
        and "dispatched (snd (handleError env err t)) = [error_event t msg]"
        by (auto simp: handleError_def error_event_def Let_def dispatched_append)
      with msg ok Some show ?thesis using that(2) by blast
    next
      case None
      with msg ok have "fst (handleError env err t) = Returned (Rejected msg)"
        and "dispatched (snd (handleError env err t)) = [error_event t msg]"
        by (auto simp: handleError_def error_event_def Let_def dispatched_append)
      with msg ok None show ?thesis using that(3) by blast
    qed
  qed
qed


text \<open>The reporter hands the sink the ERROR event, or nothing when its log line throws.\<close>

lemma handleError_events:
  "dispatched (snd (handleError env x t)) =
     (if getEnvironment env = ''development'' \<and> (\<exists>y. toString t = Threw y) then []
      else [error_event t (normalized x)])"
proof (cases rule: handleError_cases[of env t x])
  case (log_threw y)
  then show ?thesis by simp
next
  case (sink_threw msg y)
  then show ?thesis by (auto simp: errorMessage_normalized)
next
  case (returned msg)
  then show ?thesis by (auto simp: errorMessage_normalized)
qed

lemma handleError_reported:
  assumes "getEnvironment env = ''development'' \<longrightarrow> (\<exists>s. toString t = Returned s)"
  shows "dispatched (snd (handleError env x t)) = [error_event t (normalized x)]"
  using assms by (auto simp: handleError_events)


lemma invoke_resolved:
  assumes "httpRequest env v t (request_opts v e d ra) = (Resolved b, tr)"
  shows "invoke v env t e d ra = (Resolved (if v = POST then b else JUndefined), tr)"
  using assms by (simp add: invoke_unfold)

lemma invoke_rejected:
  assumes "httpRequest env v t (request_opts v e d ra) = (Rejected x, tr)"
  shows "invoke v env t e d ra =
           (settle (fst (handleError env x t)), tr @ snd (handleError env x t))"
  using assms by (simp add: invoke_unfold split: prod.splits)

lemma httpRequest_requested:
  assumes "Requested v' args \<in> set (snd (httpRequest env v t os))"
  shows "v' = v \<and> reqArgs env v os = Returned args \<and> dispatch env (pending_event t) = None"
  using assms by (cases rule: httpRequest_cases[of env t v os]) auto


section \<open>The lifecycle of one call\<close>




section \<open>Success\<close>

text \<open>
  C2 (as amended). For every call where the transport is called and succeeds, the
  dispatcher hands the sink one PENDING event and then a SUCCESS event whose payload is
  the transport's response body; provided the sink returns normally on that SUCCESS
  event, the dispatcher's promise resolves with that same body.
\<close>

theorem success_payload:
  assumes "Requested v args \<in> set (snd (httpRequest env v t os))"
    and "axios env v args = Resolved r"
  shows "length (dispatched (snd (httpRequest env v t os))) = 2
       \<and> lifecycle (dispatched (snd (httpRequest env v t os)) ! 0) = Some PENDING
       \<and> meta (dispatched (snd (httpRequest env v t os)) ! 1) = Some (Meta SUCCESS)
       \<and> payload (dispatched (snd (httpRequest env v t os)) ! 1) = Some (response_data r)
       \<and> (dispatch env (dispatched (snd (httpRequest env v t os)) ! 1) = None \<longrightarrow>
            fst (httpRequest env v t os) = Resolved (response_data r))"
proof -
  from httpRequest_requested[OF assms(1)]
  have ra: "reqArgs env v os = Returned args"
    and pe: "dispatch env (pending_event t) = None" by simp_all
  show ?thesis
    using ra pe assms(2)
    by (cases rule: httpRequest_cases[of env t v os])
       (simp_all add: success_event_def)
qed

theorem success_payload_witness:
  "Requested GET
     [JStr ''http://localhost:3000/api/user/1'',
      JObj [(''headers'', JObj [(''Authorization'', JStr ''jwt-1'')])]]
     \<in> set (snd (httpRequest mock_env GET (JStr ''FETCH_USER'')
                   \<lparr>endpoint = JStr ''user/1'', data = JUndefined, requiresAuth = JBool True\<rparr>))
   \<and> payload (dispatched (snd (httpRequest mock_env GET (JStr ''FETCH_USER'')
        \<lparr>endpoint = JStr ''user/1'', data = JUndefined, requiresAuth = JBool True\<rparr>)) ! 1)
       = Some (JObj [(''id'', JNum 1), (''name'', JStr ''A'')])
   \<and> fst (httpRequest mock_env GET (JStr ''FETCH_USER'')
        \<lparr>endpoint = JStr ''user/1'', data = JUndefined, requiresAuth = JBool True\<rparr>)
       = Resolved (JObj [(''id'', JNum 1), (''name'', JStr ''A'')])"
proof -
  let ?args = "[JStr ''http://localhost:3000/api/user/1'',
                JObj [(''headers'', JObj [(''Authorization'', JStr ''jwt-1'')])]]"
  let ?os = "\<lparr>endpoint = JStr ''user/1'', data = JUndefined, requiresAuth = JBool True\<rparr>"
  have h1: "Requested GET ?args \<in> set (snd (httpRequest mock_env GET (JStr ''FETCH_USER'') ?os))"
    by (simp add: run_defs)
  have h2: "axios mock_env GET ?args
              = Resolved (Response (JObj [(''id'', JNum 1), (''name'', JStr ''A'')]))"
    by (simp add: mock_env_def)
  have h3: "dispatch mock_env a = None" for a
    by (simp add: mock_env_def)
  show ?thesis
    using h1 h3 success_payload[OF h1 h2] by simp
qed

text \<open>
  The transport succeeds and the sink throws on the SUCCESS event: the promise of the
  dispatcher rejects with what the sink threw.
\<close>

theorem success_payload_counterexample:
  "axios (throwing_sink SUCCESS) POST
       [JStr ''http://localhost:3000/api/user'', JObj [(''name'', JStr ''A'')], JObj []]
     = Resolved (Response (JObj [(''id'', JNum 1), (''name'', JStr ''A'')]))
   \<and> httpRequest (throwing_sink SUCCESS) POST (JStr ''ADD_USER'')
        \<lparr>endpoint = JStr ''user'', data = JObj [(''name'', JStr ''A'')],
         requiresAuth = JBool False\<rparr> =
       (Rejected (JStr ''sink failed''),
        [Dispatched \<lparr>type = JStr ''ADD_USER'', payload = None, status = None,
                     meta = Some (Meta PENDING)\<rparr>,
         Requested POST
           [JStr ''http://localhost:3000/api/user'', JObj [(''name'', JStr ''A'')], JObj []],
         Dispatched \<lparr>type = JStr ''ADD_USER'',
                     payload = Some (JObj [(''id'', JNum 1), (''name'', JStr ''A'')]),
                     status = None, meta = Some (Meta SUCCESS)\<rparr>])"
  by (simp add: run_defs)

section \<open>Failure\<close>

text \<open>
  C3 (as amended). For every failed call whose action type, when the environment is
  development, can be converted to a string (as every string can), the error reporter
  dispatches exactly one ERROR event whose payload is \<^verbatim>\<open>error.response.data\<close> whenever
  the error and its \<^verbatim>\<open>response\<close> are both truthy (so \<^verbatim>\<open>undefined\<close> when that response
  has no \<^verbatim>\<open>data\<close>) and the raw error value otherwise; provided the sink returns normally
  on that event, it returns a promise that rejects with that same payload, and so does
  the wrapper whose dispatcher rejected with the error.
\<close>

theorem error_payload:
  assumes log: "getEnvironment env = ''development'' \<longrightarrow> (\<exists>s. toString t = Returned s)"
  shows "dispatched (snd (handleError env error t)) =
     [\<lparr>type = t, payload = Some (normalized error), status = Some ERROR, meta = None\<rparr>]
   \<and> (dispatch env \<lparr>type = t, payload = Some (normalized error), status = Some ERROR,
                     meta = None\<rparr> = None \<longrightarrow>
        fst (handleError env error t) = Returned (Rejected (normalized error)))
   \<and> (\<forall>v e d ra. fst (httpRequest env v t (request_opts v e d ra)) = Rejected error \<longrightarrow>
        snd (invoke v env t e d ra) =
          snd (httpRequest env v t (request_opts v e d ra)) @ snd (handleError env error t)
        \<and> (dispatch env \<lparr>type = t, payload = Some (normalized error), status = Some ERROR,
                          meta = None\<rparr> = None \<longrightarrow>
             fst (invoke v env t e d ra) = Rejected (normalized error)))"
proof -
  have 1: "dispatched (snd (handleError env error t)) = [error_event t (normalized error)]"
    by (rule handleError_reported[OF log])
  have 2: "fst (handleError env error t) = Returned (Rejected (normalized error))"
    if "dispatch env (error_event t (normalized error)) = None"
    using that log
    by (cases rule: handleError_cases[of env t error]) (auto simp: errorMessage_normalized)
  have 3: "invoke v env t e d ra =
        (settle (fst (handleError env error t)),
         snd (httpRequest env v t (request_opts v e d ra)) @ snd (handleError env error t))"
    if "fst (httpRequest env v t (request_opts v e d ra)) = Rejected error" for v e d ra
    using that invoke_rejected[of env v t e d ra error "snd (httpRequest env v t (request_opts v e d ra))"]
    by (simp add: prod_eq_iff)
  show ?thesis using 1 2 3 by (simp add: error_event_def settle_def)
qed

text \<open>
  The example of the specification: the transport rejects with
  \<^verbatim>\<open>{response: {data: 'Not found'}}\<close>, the payload and the rejection are \<^verbatim>\<open>'Not found'\<close>.
\<close>

theorem error_payload_witness:
  "fst (httpRequest not_found_env GET (JStr ''FETCH_USER'')
          (request_opts GET (JStr ''user/1'') JUndefined (JBool True)))
     = Rejected (JObj [(''response'', JObj [(''data'', JStr ''Not found'')])])
   \<and> normalized (JObj [(''response'', JObj [(''data'', JStr ''Not found'')])]) = JStr ''Not found''
   \<and> dispatched (snd (handleError not_found_env
        (JObj [(''response'', JObj [(''data'', JStr ''Not found'')])]) (JStr ''FETCH_USER'')))
       = [\<lparr>type = JStr ''FETCH_USER'', payload = Some (JStr ''Not found''),
           status = Some ERROR, meta = None\<rparr>]
   \<and> fst (invoke GET not_found_env (JStr ''FETCH_USER'') (JStr ''user/1'') JUndefined
        (JBool True)) = Rejected (JStr ''Not found'')"
proof -
  let ?err = "JObj [(''response'', JObj [(''data'', JStr ''Not found'')])]"
  have h1: "fst (httpRequest not_found_env GET (JStr ''FETCH_USER'')
                  (request_opts GET (JStr ''user/1'') JUndefined (JBool True))) = Rejected ?err"
    by (simp add: run_defs)
  have h2: "normalized ?err = JStr ''Not found''"
    by (simp add: normalized_def)
  have h3: "dispatch not_found_env a = None" for a
    by (simp add: not_found_env_def mock_env_def)
  have l: "getEnvironment not_found_env = ''development'' \<longrightarrow>
             (\<exists>s. toString (JStr ''FETCH_USER'') = Returned s)"
    by simp
  show ?thesis
    using h1 h2 h3 error_payload[OF l, of ?err] by simp
qed

text \<open>
  An error whose response has no \<^verbatim>\<open>data\<close> is reported as \<^verbatim>\<open>undefined\<close>, not as the raw
  error; when the sink throws on the ERROR event the reporter throws and returns no
  promise; and with the action type \<^verbatim>\<open>{toString: 'x'}\<close> in development the reporter
  throws while it builds its log line, before any event is dispatched.
\<close>

theorem error_payload_counterexample:
  "handleError mock_env (JObj [(''response'', JObj [(''status'', JNum 500)])])
       (JStr ''FETCH_USER'') =
     (Returned (Rejected JUndefined),
      [ConsoleError (JStr ''Error type: FETCH_USER.''),
       ConsoleError (JObj [(''response'', JObj [(''status'', JNum 500)])]),
       Dispatched \<lparr>type = JStr ''FETCH_USER'', payload = Some JUndefined,
                   status = Some ERROR, meta = None\<rparr>])
   \<and> handleError (throwing_sink ERROR) (JStr ''Network Error'') (JStr ''FETCH_USER'') =
     (Threw (JStr ''sink failed''),
      [ConsoleError (JStr ''Error type: FETCH_USER.''),
       ConsoleError (JStr ''Network Error''),
       Dispatched \<lparr>type = JStr ''FETCH_USER'', payload = Some (JStr ''Network Error''),
                   status = Some ERROR, meta = None\<rparr>])
   \<and> getEnvironment mock_env = ''development''
   \<and> handleError mock_env (JStr ''Network Error'') (JObj [(''toString'', JStr ''x'')]) =
     (Threw TypeError, [])"
  by (simp add: run_defs)

text \<open>
  C7. For every call where the transport is called and fails, \<^verbatim>\<open>httpRequest\<close> rejects
  with the raw error and has dispatched the PENDING event only, no ERROR event; the
  report is made by the wrapper, which runs the error reporter on that raw error after
  the dispatcher has finished.
\<close>

theorem transport_failure:
  assumes "Requested v args \<in> set (snd (httpRequest env v t os))"
    and "axios env v args = Rejected x"
  shows "fst (httpRequest env v t os) = Rejected x
       \<and> map lifecycle (dispatched (snd (httpRequest env v t os))) = [Some PENDING]
       \<and> (\<forall>e d ra. os = request_opts v e d ra \<longrightarrow>
            invoke v env t e d ra =
              (settle (fst (handleError env x t)),
               snd (httpRequest env v t os) @ snd (handleError env x t)))"
proof -
  from httpRequest_requested[OF assms(1)]
  have ra: "reqArgs env v os = Returned args"
    and pe: "dispatch env (pending_event t) = None" by simp_all
  have hr: "httpRequest env v t os =
      (Rejected x, [Dispatched (pending_event t), Requested v args])"
    using ra pe assms(2) by (cases rule: httpRequest_cases[of env t v os]) simp_all
  have "invoke v env t e d ra =
          (settle (fst (handleError env x t)),
           snd (httpRequest env v t os) @ snd (handleError env x t))"
    if "os = request_opts v e d ra" for e d ra
    using hr invoke_rejected[of env v t e d ra x] that by simp
  with hr show ?thesis by simp
qed

theorem transport_failure_witness:
  "Requested DELETE [JStr ''http://localhost:3000/api/user/1'', JObj []]
     \<in> set (snd (httpRequest not_found_env DELETE (JStr ''DELETE_USER'')
                   (request_opts DELETE (JStr ''user/1'') JUndefined JUndefined)))
   \<and> httpRequest not_found_env DELETE (JStr ''DELETE_USER'')
        (request_opts DELETE (JStr ''user/1'') JUndefined JUndefined) =
       (Rejected (JObj [(''response'', JObj [(''data'', JStr ''Not found'')])]),
        [Dispatched \<lparr>type = JStr ''DELETE_USER'', payload = None, status = None,
                     meta = Some (Meta PENDING)\<rparr>,
         Requested DELETE [JStr ''http://localhost:3000/api/user/1'', JObj []]])
   \<and> fst (invoke DELETE not_found_env (JStr ''DELETE_USER'') (JStr ''user/1'') JUndefined
        JUndefined) = Rejected (JStr ''Not found'')"
proof -
  let ?args = "[JStr ''http://localhost:3000/api/user/1'', JObj []]"
  let ?os = "request_opts DELETE (JStr ''user/1'') JUndefined JUndefined"
  let ?err = "JObj [(''response'', JObj [(''data'', JStr ''Not found'')])]"
  have h1: "Requested DELETE ?args
              \<in> set (snd (httpRequest not_found_env DELETE (JStr ''DELETE_USER'') ?os))"
    by (simp add: run_defs)
  have h2: "axios not_found_env DELETE ?args = Rejected ?err"
    by (simp add: not_found_env_def mock_env_def)
  show ?thesis
    using h1 transport_failure[OF h1 h2] by (simp add: run_defs)
qed

section \<open>The outgoing request\<close>










section \<open>What the wrappers resolve with\<close>

text \<open>
  C6. When the dispatcher resolves, with the response body, \<^verbatim>\<open>post\<close> resolves with that
  body, while \<^verbatim>\<open>put\<close>, \<^verbatim>\<open>get\<close> and \<^verbatim>\<open>del\<close> resolve with \<^verbatim>\<open>undefined\<close>.
\<close>

theorem resolved_values:
  "(fst (httpRequest env POST t (request_opts POST e d ra)) = Resolved b \<longrightarrow>
      fst (post env t e d ra) = Resolved b)
   \<and> (fst (httpRequest env PUT t (request_opts PUT e d ra)) = Resolved b \<longrightarrow>
      fst (put env t e d ra) = Resolved JUndefined)
   \<and> (fst (httpRequest env GET t (request_opts GET e d ra)) = Resolved b \<longrightarrow>
      fst (get env t e ra) = Resolved JUndefined)
   \<and> (fst (httpRequest env DELETE t (request_opts DELETE e d ra)) = Resolved b \<longrightarrow>
      fst (del env t e ra) = Resolved JUndefined)
   \<and> (fst (httpRequest env v t os) = Resolved b \<longrightarrow>
      (\<exists>args r. reqArgs env v os = Returned args \<and> axios env v args = Resolved r \<and>
         response_data r = b))"
proof -
  have "\<exists>args r. reqArgs env v os = Returned args \<and> axios env v args = Resolved r \<and>
          response_data r = b"
    if "fst (httpRequest env v t os) = Resolved b"
    using that by (cases rule: httpRequest_cases[of env t v os]) simp_all
  then show ?thesis
    by (auto simp: post_def put_def get_def del_def request_opts_def
        split: prod.splits promise.splits)
qed

theorem resolved_values_witness:
  "fst (httpRequest mock_env POST (JStr ''ADD_USER'')
          (request_opts POST (JStr ''user'') (JObj [(''name'', JStr ''A'')]) (JBool True)))
     = Resolved (JObj [(''id'', JNum 1), (''name'', JStr ''A'')])
   \<and> fst (post mock_env (JStr ''ADD_USER'') (JStr ''user'') (JObj [(''name'', JStr ''A'')])
        (JBool True)) = Resolved (JObj [(''id'', JNum 1), (''name'', JStr ''A'')])
   \<and> fst (put mock_env (JStr ''ADD_USER'') (JStr ''user'') (JObj [(''name'', JStr ''A'')])
        (JBool True)) = Resolved JUndefined
   \<and> fst (get mock_env (JStr ''ADD_USER'') (JStr ''user'') (JBool True)) = Resolved JUndefined
   \<and> fst (del mock_env (JStr ''ADD_USER'') (JStr ''user'') (JBool True)) = Resolved JUndefined"
proof -
  let ?b = "JObj [(''id'', JNum 1), (''name'', JStr ''A'')]"
  have h: "fst (httpRequest mock_env v (JStr ''ADD_USER'')
                 (request_opts v (JStr ''user'') (JObj [(''name'', JStr ''A'')]) (JBool True)))
             = Resolved ?b" for v
    by (cases v) (simp_all add: httpRequest_def reqArgs_def request_opts_def js_or_def
        mock_env_def Let_def)
  show ?thesis
    using h resolved_values[of mock_env "JStr ''ADD_USER''" "JStr ''user''"
        "JObj [(''name'', JStr ''A'')]" "JBool True" ?b]
    by simp
qed

section \<open>The shapes of the events\<close>

text \<open>
  C9. The events of a call do not share one shape: the PENDING and the SUCCESS event
  carry their status nested as \<^verbatim>\<open>meta.status\<close> and have no top-level \<^verbatim>\<open>status\<close>, while
  the ERROR event carries a top-level \<^verbatim>\<open>status\<close> and has no \<^verbatim>\<open>meta\<close>. Every event the
  sink is handed has one of these shapes, and every call hands it the PENDING one.
\<close>

theorem event_shapes:
  "(\<forall>a. Dispatched a \<in> set (snd (invoke v env t e d ra)) \<longrightarrow>
        (meta a = Some (Meta PENDING) \<and> status a = None)
      \<or> (meta a = Some (Meta SUCCESS) \<and> status a = None)
      \<or> (status a = Some ERROR \<and> meta a = None))
   \<and> (\<exists>a. Dispatched a \<in> set (snd (invoke v env t e d ra)) \<and>
          meta a = Some (Meta PENDING) \<and> status a = None)"
proof -
  let ?os = "request_opts v e d ra"
  have shapes:
    "(meta (pending_event t) = Some (Meta PENDING) \<and> status (pending_event t) = None)"
    "(meta (success_event t b) = Some (Meta SUCCESS) \<and> status (success_event t b) = None)"
    "(status (error_event t m) = Some ERROR \<and> meta (error_event t m) = None)" for b m
    by (simp_all add: pending_event_def success_event_def error_event_def)
  have err: "a = error_event t (normalized x)"
    if "Dispatched a \<in> set (snd (handleError env x t))" for a x
    using that by (simp add: dispatched_mem handleError_events split: if_splits)
  show ?thesis
  proof (cases rule: httpRequest_cases[of env t v ?os])
    case (sink_threw x)
    show ?thesis
      unfolding invoke_rejected[OF sink_threw(2)] using shapes err by fastforce
  next
    case (url_threw x)
    show ?thesis
      unfolding invoke_rejected[OF url_threw(3)] using shapes err by fastforce
  next
    case (rejected args x)
    show ?thesis
      unfolding invoke_rejected[OF rejected(4)] using shapes err by fastforce
  next
    case (success_threw args r x)
    show ?thesis
      unfolding invoke_rejected[OF success_threw(5)] using shapes err by fastforce
  next
    case (resolved args r)
    show ?thesis
      unfolding invoke_resolved[OF resolved(5)] using shapes by auto
  qed
qed

theorem event_shapes_witness:
  "Dispatched \<lparr>type = JStr ''FETCH_USER'', payload = Some (JStr ''Not found''),
               status = Some ERROR, meta = None\<rparr>
     \<in> set (snd (invoke GET not_found_env (JStr ''FETCH_USER'') (JStr ''user/1'') JUndefined
                   (JBool True)))
   \<and> Dispatched \<lparr>type = JStr ''FETCH_USER'', payload = None, status = None,
                 meta = Some (Meta PENDING)\<rparr>
     \<in> set (snd (invoke GET not_found_env (JStr ''FETCH_USER'') (JStr ''user/1'') JUndefined
                   (JBool True)))
   \<and> Dispatched \<lparr>type = JStr ''FETCH_USER'',
                 payload = Some (JObj [(''id'', JNum 1), (''name'', JStr ''A'')]),
                 status = None, meta = Some (Meta SUCCESS)\<rparr>
     \<in> set (snd (invoke GET mock_env (JStr ''FETCH_USER'') (JStr ''user/1'') JUndefined
                   (JBool True)))"
  using
    event_shapes[of GET not_found_env "JStr ''FETCH_USER''" "JStr ''user/1''" JUndefined "JBool True"]
    event_shapes[of GET mock_env "JStr ''FETCH_USER''" "JStr ''user/1''" JUndefined "JBool True"]
  by (simp add: run_defs)

end

